theory Spec2Isabelle
  imports Main "HOL-Library.Sublist"
begin

section \<open>Data model\<close>

text \<open>
  The browser \<^verbatim>\<open>File\<close> handed over by the dropzone. Its binary content is
  represented by the data URL that \<^verbatim>\<open>FileReader.readAsDataURL\<close> produces for it.
\<close>

record File =
  file_name :: string
  media_type :: string
  data_url :: string

text \<open>
  One entry of the extraction response. The orchestrator reads only \<open>corrected\<close>; the
  confidence is a percentage, and \<open>method_name\<close> is the response's \<^verbatim>\<open>method\<close> field.
\<close>

record MedicineCorrection =
  original :: string
  corrected :: string
  confidence :: nat
  method_name :: string
  explanation :: string
  is_valid :: bool

record MedicineInfo =
  name :: string
  category :: string
  description :: string
  dosage :: string
  side_effects :: string
  precautions :: string
  interactions :: "string option"
  pregnancy_safety :: "string option"
  storage :: "string option"
  missed_dose :: "string option"
  verified :: bool
  verification_sources :: "string list"

datatype sender = User | AI

text \<open>
  A transcript entry (\<^verbatim>\<open>addMessage\<close>, lines 94-98). The timestamp is the reading of
  the wall clock at the time of the call.
\<close>

record ChatMessage =
  sender :: sender
  content :: string
  timestamp :: nat

text \<open>The object passed to \<^verbatim>\<open>setModalResults\<close> (App.jsx, lines 172-177).\<close>

datatype ModalResults = ModalResults
  (modal_extractedText: string)
  (modal_medicines: "MedicineInfo list")
  (modal_medicineCorrections: "MedicineCorrection list")
  (modal_fileName: string)

subsection \<open>The HTTP surface\<close>

text \<open>The body of each \<^verbatim>\<open>axios.post\<close>, tagged with its endpoint.\<close>

datatype request =
  OcrCall File
| ExtractMedsCall string
| MedInfoCall "string list"
| ChatCall string string

text \<open>
  The \<^verbatim>\<open>data\<close> object of each endpoint's response. A field that the code tests for
  truthiness and that may be absent is an option.
\<close>

datatype ocr_data = OcrData (ocr_success: bool) (ocr_text: string) (ocr_message: "string option")

datatype meds_data = MedsData (meds_success: bool) (meds_medicines: "MedicineCorrection list")
  (correction_summary: "string option")

datatype info_data = InfoData (info_success: bool) (medicines_info: "MedicineInfo list")

datatype chat_data = ChatData (chat_success: bool) (chat_response: string)

text \<open>
  What an awaited \<^verbatim>\<open>axios.post\<close> does: it rejects with an error (whose
  \<^verbatim>\<open>message\<close> is kept), or it resolves with a response (whose \<^verbatim>\<open>data\<close> is kept).
\<close>

datatype 'a reply = Rejects string | Resolves 'a

datatype toast = ToastSuccess string | ToastError string

subsection \<open>State\<close>

text \<open>
  The \<^verbatim>\<open>useState\<close> cells of \<^verbatim>\<open>AppContent\<close> that the handlers below touch, the two
  cells of \<^verbatim>\<open>UploadCard\<close> (\<open>preview\<close>, \<open>fileName\<close>), and the observable effects on
  the environment: the requests issued so far (\<open>calls\<close>), the file reads started so far
  (\<open>reads\<close>), the toasts shown, and the wall clock that \<^verbatim>\<open>new Date()\<close> reads.
\<close>

record world =
  messages :: "ChatMessage list"
  isTyping :: bool
  isProcessing :: bool
  medicines :: "MedicineInfo list"
  medicineCorrections :: "MedicineCorrection list"
  extractedText :: string
  isChatProcessing :: bool
  currentFile :: "File option"
  showResultsModal :: bool
  modalResults :: "ModalResults option"
  isDarkMode :: bool
  preview :: "string option"
  fileName :: string
  calls :: "request list"
  reads :: "File list"
  toasts :: "toast list"
  now :: nat

text \<open>The state after the first render: every cell holds its \<^verbatim>\<open>useState\<close> default.\<close>

definition initial :: "nat \<Rightarrow> world" where
  "initial t = \<lparr>messages = [], isTyping = False, isProcessing = False, medicines = [],
     medicineCorrections = [], extractedText = [], isChatProcessing = False,
     currentFile = None, showResultsModal = False, modalResults = None, isDarkMode = False,
     preview = None, fileName = [], calls = [], reads = [], toasts = [], now = t\<rparr>"

section \<open>String helpers of the JavaScript runtime\<close>

text \<open>Decimal rendering of a number inside a template literal.\<close>

definition digit :: "nat \<Rightarrow> char" where
  "digit d = ''0123456789'' ! d"

function string_of_nat :: "nat \<Rightarrow> string" where
  "string_of_nat n = (if n < 10 then [digit n] else string_of_nat (n div 10) @ [digit (n mod 10)])"
  by pat_completeness auto
termination
  by (relation "measure id") auto

declare string_of_nat.simps [simp del]

text \<open>\<^verbatim>\<open>String.prototype.split\<close> with a one-character separator.\<close>

fun split :: "char \<Rightarrow> string \<Rightarrow> string list" where
  "split c [] = [[]]"
| "split c (x # xs) =
     (if x = c then [] # split c xs
      else (case split c xs of [] \<Rightarrow> [[x]] | w # ws \<Rightarrow> (x # w) # ws))"

text \<open>\<^verbatim>\<open>Array.prototype.join\<close>.\<close>

fun join :: "string \<Rightarrow> string list \<Rightarrow> string" where
  "join sep [] = []"
| "join sep [x] = x"
| "join sep (x # y # ys) = x @ sep @ join sep (y # ys)"

text \<open>\<^verbatim>\<open>new Error(m).message\<close>: the empty string when \<open>m\<close> is undefined.\<close>

definition Error_message :: "string option \<Rightarrow> string" where
  "Error_message m = (case m of None \<Rightarrow> [] | Some t \<Rightarrow> t)"

section \<open>The orchestrator (App.jsx)\<close>

definition addMessage :: "sender \<Rightarrow> string \<Rightarrow> world \<Rightarrow> world" where
  "addMessage sndr c s =
     s\<lparr>messages := messages s @ [\<lparr>sender = sndr, content = c, timestamp = now s\<rparr>]\<rparr>"

definition axios_post :: "request \<Rightarrow> world \<Rightarrow> world" where
  "axios_post rq s = s\<lparr>calls := calls s @ [rq]\<rparr>"

definition toast_show :: "toast \<Rightarrow> world \<Rightarrow> world" where
  "toast_show t s = s\<lparr>toasts := toasts s @ [t]\<rparr>"

text \<open>
  \<^verbatim>\<open>processPrescription\<close> is an async function: it runs until an \<^verbatim>\<open>await\<close>, and is
  resumed when the awaited request settles. A \<open>task\<close> is where one invocation stands:
  suspended at one of its three awaits, with the local variables that are live there,
  or returned.
\<close>

datatype task =
  AwaitOcr File
| AwaitMeds File string
| AwaitInfo File string "MedicineCorrection list"
| Returned

text \<open>
  What a stretch of the \<^verbatim>\<open>try\<close> body does between two awaits: it throws, it reaches the
  next await, or it reaches the end of the body.
\<close>

datatype stretch = Throw string | Suspend world task | Finish world

definition sentinel :: string where
  "sentinel = ''All medicine names were accurate.''"

text \<open>Lines 148-152: the text of the medicines-found message.\<close>

definition medicineMessage :: "string list \<Rightarrow> string option \<Rightarrow> string" where
  "medicineMessage medicineNames summary =
     (let base = ''I found '' @ string_of_nat (length medicineNames)
                 @ '' medicine(s) in your prescription: '' @ join '', '' medicineNames
      in case summary of
           None \<Rightarrow> base
         | Some cs \<Rightarrow>
             if cs \<noteq> [] \<and> cs \<noteq> sentinel then base @ [CHR 0x0A, CHR 0x0A] @ cs else base)"

text \<open>Lines 105-120: up to the first await.\<close>

definition processPrescription_begin :: "File \<Rightarrow> world \<Rightarrow> world \<times> task" where
  "processPrescription_begin file s =
     (let s1 = s\<lparr>isProcessing := True\<rparr>;
          s2 = s1\<lparr>isTyping := True\<rparr>;
          s3 = addMessage User (''Uploaded prescription: '' @ file_name file) s2;
          s4 = axios_post (OcrCall file) s3
      in (s4, AwaitOcr file))"

text \<open>Lines 116-135: from the OCR response to the second await.\<close>

definition ocr_stretch :: "File \<Rightarrow> ocr_data reply \<Rightarrow> world \<Rightarrow> stretch" where
  "ocr_stretch file r s =
     (case r of
        Rejects e \<Rightarrow> Throw e
      | Resolves d \<Rightarrow>
          if \<not> ocr_success d then Throw (Error_message (ocr_message d))
          else
            let extracted = ocr_text d;
                s1 = s\<lparr>extractedText := extracted\<rparr>;
                s2 = addMessage AI (''I've extracted the text from your prescription. Found ''
                       @ string_of_nat (length (split CHR '' '' extracted)) @ '' words.'') s1;
                s3 = axios_post (ExtractMedsCall extracted) s2
            in Suspend s3 (AwaitMeds file extracted))"

text \<open>Lines 133-159: from the extraction response to the third await.\<close>

definition meds_stretch :: "File \<Rightarrow> string \<Rightarrow> meds_data reply \<Rightarrow> world \<Rightarrow> stretch" where
  "meds_stretch file extracted r s =
     (case r of
        Rejects e \<Rightarrow> Throw e
      | Resolves d \<Rightarrow>
          if \<not> meds_success d then Throw ''Could not identify medicines in the prescription''
          else
            let medicineData = meds_medicines d;
                medicineNames = map corrected medicineData;
                s1 = s\<lparr>medicineCorrections := medicineData\<rparr>;
                s2 = addMessage AI (medicineMessage medicineNames (correction_summary d)) s1;
                s3 = axios_post (MedInfoCall medicineNames) s2
            in Suspend s3 (AwaitInfo file extracted medicineData))"

text \<open>Lines 157-180: from the information response to the end of the \<^verbatim>\<open>try\<close> body.\<close>

definition info_stretch ::
  "File \<Rightarrow> string \<Rightarrow> MedicineCorrection list \<Rightarrow> info_data reply \<Rightarrow> world \<Rightarrow> stretch" where
  "info_stretch file extracted medicineData r s =
     (case r of
        Rejects e \<Rightarrow> Throw e
      | Resolves d \<Rightarrow>
          if \<not> info_success d then Throw ''Could not retrieve medicine information''
          else
            let medicinesInfo = medicines_info d;
                s1 = s\<lparr>medicines := medicinesInfo\<rparr>;
                s2 = addMessage AI (''I've analyzed your prescription and prepared detailed ''
                       @ ''information for each medicine. You can view the details below.'') s1;
                s3 = s2\<lparr>modalResults :=
                          Some (ModalResults extracted medicinesInfo medicineData (file_name file))\<rparr>;
                s4 = s3\<lparr>showResultsModal := True\<rparr>;
                s5 = toast_show (ToastSuccess ''Prescription processed successfully!'') s4
            in Finish s5)"

text \<open>Lines 182-185: the \<^verbatim>\<open>catch\<close> block. Lines 186-189: the \<^verbatim>\<open>finally\<close> block.\<close>

definition catch_block :: "string \<Rightarrow> world \<Rightarrow> world" where
  "catch_block e s =
     (let s1 = addMessage AI (''Sorry, I encountered an error while processing your prescription: ''
                 @ e @ ''. Please try again with a clearer image.'') s
      in toast_show (ToastError ''Failed to process prescription. Please try again.'') s1)"

definition finally_block :: "world \<Rightarrow> world" where
  "finally_block s = (s\<lparr>isTyping := False\<rparr>)\<lparr>isProcessing := False\<rparr>"

text \<open>
  The \<^verbatim>\<open>try\<close>/\<^verbatim>\<open>catch\<close>/\<^verbatim>\<open>finally\<close> around a stretch that was resumed in state \<open>s\<close>.
  Every \<^verbatim>\<open>throw\<close> of the body comes before the first state update of its stretch, so
  the \<^verbatim>\<open>catch\<close> block runs in \<open>s\<close>.
\<close>

definition try_catch_finally :: "world \<Rightarrow> stretch \<Rightarrow> world \<times> task" where
  "try_catch_finally s st =
     (case st of
        Throw e \<Rightarrow> (finally_block (catch_block e s), Returned)
      | Suspend s' k \<Rightarrow> (s', k)
      | Finish s' \<Rightarrow> (finally_block s', Returned))"

text \<open>Resuming \<^verbatim>\<open>processPrescription\<close> at each of its awaits.\<close>

definition resume_ocr :: "File \<Rightarrow> ocr_data reply \<Rightarrow> world \<Rightarrow> world \<times> task" where
  "resume_ocr file r s = try_catch_finally s (ocr_stretch file r s)"

definition resume_meds :: "File \<Rightarrow> string \<Rightarrow> meds_data reply \<Rightarrow> world \<Rightarrow> world \<times> task" where
  "resume_meds file extracted r s = try_catch_finally s (meds_stretch file extracted r s)"

definition resume_info ::
  "File \<Rightarrow> string \<Rightarrow> MedicineCorrection list \<Rightarrow> info_data reply \<Rightarrow> world \<Rightarrow> world \<times> task" where
  "resume_info file extracted medicineData r s =
     try_catch_finally s (info_stretch file extracted medicineData r s)"

text \<open>Lines 192-195.\<close>

definition handleFileUpload :: "File \<Rightarrow> world \<Rightarrow> world \<times> task" where
  "handleFileUpload file s = processPrescription_begin file (s\<lparr>currentFile := Some file\<rparr>)"

text \<open>Lines 197-205.\<close>

definition clearResults :: "world \<Rightarrow> world" where
  "clearResults s =
     s\<lparr>medicines := [], medicineCorrections := [], extractedText := [], messages := [],
       currentFile := None, showResultsModal := False, modalResults := None\<rparr>"

text \<open>Lines 207-211. No invocation is started when there is no current file.\<close>

definition handleAnalyze :: "world \<Rightarrow> world \<times> task option" where
  "handleAnalyze s =
     (case currentFile s of
        Some file \<Rightarrow> (let (s', k) = processPrescription_begin file s in (s', Some k))
      | None \<Rightarrow> (s, None))"

text \<open>Lines 213-230: \<^verbatim>\<open>handleChatMessage\<close> up to its await.\<close>

definition chat_context :: "MedicineInfo list \<Rightarrow> string" where
  "chat_context ms =
     (if length ms > 0 then ''Current medicines: '' @ join '', '' (map name ms) else [])"

definition handleChatMessage_begin :: "string \<Rightarrow> world \<Rightarrow> world" where
  "handleChatMessage_begin message s =
     (let s1 = s\<lparr>isChatProcessing := True\<rparr>;
          s2 = s1\<lparr>isTyping := True\<rparr>;
          s3 = addMessage User message s2;
          context = chat_context (medicines s)
      in axios_post (ChatCall message context) s3)"

text \<open>Lines 227-244: from the chat response to the end, \<^verbatim>\<open>catch\<close> and \<^verbatim>\<open>finally\<close> included.\<close>

definition resume_chat :: "chat_data reply \<Rightarrow> world \<Rightarrow> world" where
  "resume_chat r s =
     (let s1 = (case r of
                  Rejects e \<Rightarrow>
                    addMessage AI (''Sorry, I encountered an error while processing your message. ''
                      @ ''Please try again.'') s
                | Resolves d \<Rightarrow>
                    if chat_success d then addMessage AI (chat_response d) s
                    else addMessage AI ''Sorry, I encountered an error. Please try again.'' s)
      in (s1\<lparr>isTyping := False\<rparr>)\<lparr>isChatProcessing := False\<rparr>)"

text \<open>Line 90 and line 482.\<close>

definition toggleDarkMode :: "world \<Rightarrow> world" where
  "toggleDarkMode s = s\<lparr>isDarkMode := \<not> isDarkMode s\<rparr>"

definition closeModal :: "world \<Rightarrow> world" where
  "closeModal s = s\<lparr>showResultsModal := False\<rparr>"

section \<open>The upload collector (UploadCard.jsx)\<close>

text \<open>
  Lines 10-25. \<^verbatim>\<open>readAsDataURL\<close> only starts the read; the preview is set by the
  reader's \<^verbatim>\<open>onload\<close> callback, which runs later.
\<close>

definition onDrop :: "File list \<Rightarrow> world \<Rightarrow> world \<times> task option" where
  "onDrop acceptedFiles s =
     (case acceptedFiles of
        [] \<Rightarrow> (s, None)
      | file # _ \<Rightarrow>
          let s1 = s\<lparr>fileName := file_name file\<rparr>;
              s2 = s1\<lparr>reads := reads s1 @ [file]\<rparr>;
              (s3, k) = handleFileUpload file s2
          in (s3, Some k))"

definition reader_onload :: "File \<Rightarrow> world \<Rightarrow> world" where
  "reader_onload file s = s\<lparr>preview := Some (data_url file)\<rparr>"

text \<open>Lines 36-39.\<close>

definition clearFile :: "world \<Rightarrow> world" where
  "clearFile s = (s\<lparr>preview := None\<rparr>)\<lparr>fileName := []\<rparr>"

text \<open>
  Lines 168-176: the Analysis button. It is disabled while \<open>isProcessing\<close> holds or
  when \<open>hasFile\<close> (\<^verbatim>\<open>!!currentFile\<close>) does not.
\<close>

definition analysis_click :: "world \<Rightarrow> world \<times> task option" where
  "analysis_click s =
     (if isProcessing s \<or> currentFile s = None then (s, None) else handleAnalyze s)"

text \<open>Lines 73-115: what the upload zone shows.\<close>

definition toLowerCase :: "string \<Rightarrow> string" where
  "toLowerCase t =
     map (\<lambda>c. case map_of (zip ''ABCDEFGHIJKLMNOPQRSTUVWXYZ'' ''abcdefghijklmnopqrstuvwxyz'') c of
                 Some l \<Rightarrow> l
               | None \<Rightarrow> c) t"

definition endsWith :: "string \<Rightarrow> string \<Rightarrow> bool" where
  "endsWith t suf = (length suf \<le> length t \<and> drop (length t - length suf) t = suf)"

datatype zone = UploadPrompt | PdfGlyph | PreviewImage string

definition upload_zone :: "world \<Rightarrow> zone" where
  "upload_zone s =
     (case preview s of
        None \<Rightarrow> UploadPrompt
      | Some p \<Rightarrow> if endsWith (toLowerCase (fileName s)) ''.pdf'' then PdfGlyph else PreviewImage p)"

section \<open>Runs and sessions\<close>

text \<open>
  The backend, as the orchestrator sees it: what each endpoint answers to a request body.
\<close>

record server =
  ocr :: "File \<Rightarrow> ocr_data reply"
  extract_meds :: "string \<Rightarrow> meds_data reply"
  med_info :: "string list \<Rightarrow> info_data reply"

text \<open>Resuming a suspended invocation with the backend's answer to its pending request.\<close>

definition serve :: "server \<Rightarrow> task \<Rightarrow> world \<Rightarrow> world \<times> task" where
  "serve srv k s =
     (case k of
        AwaitOcr file \<Rightarrow> resume_ocr file (ocr srv file) s
      | AwaitMeds file extracted \<Rightarrow> resume_meds file extracted (extract_meds srv extracted) s
      | AwaitInfo file extracted medicineData \<Rightarrow>
          resume_info file extracted medicineData (med_info srv (map corrected medicineData)) s
      | Returned \<Rightarrow> (s, Returned))"

text \<open>One invocation of \<^verbatim>\<open>processPrescription\<close> with nothing interleaved.\<close>

definition processPrescription :: "server \<Rightarrow> File \<Rightarrow> world \<Rightarrow> world \<times> task" where
  "processPrescription srv file s =
     (let (s1, k1) = processPrescription_begin file s;
          (s2, k2) = serve srv k1 s1;
          (s3, k3) = serve srv k2 s2
      in serve srv k3 s3)"

text \<open>
  Everything that can happen to the state: a handler is called by the user interface,
  a pending request settles and resumes the invocation that awaits it, a file read
  completes, or time passes.
\<close>

datatype action =
  Drop "File list"
| ClearFile
| AnalysisClick
| ClearResults
| CloseModal
| ToggleDarkMode
| SendChat string
| OcrSettles File "ocr_data reply"
| MedsSettles File string "meds_data reply"
| InfoSettles File string "MedicineCorrection list" "info_data reply"
| ChatSettles "chat_data reply"
| ReaderLoads File
| Tick nat

fun perform :: "action \<Rightarrow> world \<Rightarrow> world" where
  "perform (Drop fs) s = fst (onDrop fs s)"
| "perform ClearFile s = clearFile s"
| "perform AnalysisClick s = fst (analysis_click s)"
| "perform ClearResults s = clearResults s"
| "perform CloseModal s = closeModal s"
| "perform ToggleDarkMode s = toggleDarkMode s"
| "perform (SendChat m) s = handleChatMessage_begin m s"
| "perform (OcrSettles f r) s = fst (resume_ocr f r s)"
| "perform (MedsSettles f t r) s = fst (resume_meds f t r s)"
| "perform (InfoSettles f t md r) s = fst (resume_info f t md r s)"
| "perform (ChatSettles r) s = resume_chat r s"
| "perform (ReaderLoads f) s = reader_onload f s"
| "perform (Tick d) s = s\<lparr>now := now s + d\<rparr>"

fun performs :: "action list \<Rightarrow> world \<Rightarrow> world" where
  "performs [] s = s"
| "performs (a # as) s = performs as (perform a s)"

text \<open>When a step fails: the request throws, or the response carries \<^verbatim>\<open>success: false\<close>.\<close>

definition ocr_fails :: "ocr_data reply \<Rightarrow> bool" where
  "ocr_fails r = (case r of Rejects e \<Rightarrow> True | Resolves d \<Rightarrow> \<not> ocr_success d)"

definition meds_fails :: "meds_data reply \<Rightarrow> bool" where
  "meds_fails r = (case r of Rejects e \<Rightarrow> True | Resolves d \<Rightarrow> \<not> meds_success d)"

definition info_fails :: "info_data reply \<Rightarrow> bool" where
  "info_fails r = (case r of Rejects e \<Rightarrow> True | Resolves d \<Rightarrow> \<not> info_success d)"

text \<open>The message of the error that reaches the \<^verbatim>\<open>catch\<close> block when a step fails.\<close>

definition ocr_error :: "ocr_data reply \<Rightarrow> string" where
  "ocr_error r = (case r of Rejects e \<Rightarrow> e | Resolves d \<Rightarrow> Error_message (ocr_message d))"

definition meds_error :: "meds_data reply \<Rightarrow> string" where
  "meds_error r =
     (case r of Rejects e \<Rightarrow> e | Resolves d \<Rightarrow> ''Could not identify medicines in the prescription'')"

definition info_error :: "info_data reply \<Rightarrow> string" where
  "info_error r =
     (case r of Rejects e \<Rightarrow> e | Resolves d \<Rightarrow> ''Could not retrieve medicine information'')"

text \<open>
  A failure is reported in state \<open>s\<close> with outcome \<open>res\<close>: the invocation has returned,
  the transcript has grown by the one apology, and both flags are down.
\<close>

definition failure_reported :: "string \<Rightarrow> world \<Rightarrow> world \<times> task \<Rightarrow> bool" where
  "failure_reported e s res =
     (snd res = Returned
      \<and> messages (fst res) = messages s @
          [\<lparr>sender = AI,
            content = ''Sorry, I encountered an error while processing your prescription: ''
              @ e @ ''. Please try again with a clearer image.'',
            timestamp = now s\<rparr>]
      \<and> \<not> isTyping (fst res) \<and> \<not> isProcessing (fst res))"

section \<open>Example inputs\<close>

definition rx1 :: File where
  "rx1 = \<lparr>file_name = ''rx1.jpg'', media_type = ''image/jpeg'',
           data_url = ''data:image/jpeg;base64,AA==''\<rparr>"

definition rx2 :: File where
  "rx2 = \<lparr>file_name = ''rx2.png'', media_type = ''image/png'',
           data_url = ''data:image/png;base64,AQ==''\<rparr>"

definition paracetamol :: MedicineCorrection where
  "paracetamol = \<lparr>original = ''Paracetamol'', corrected = ''Paracetamol'', confidence = 95,
     method_name = ''exact_match'', explanation = [], is_valid = True\<rparr>"

definition ibuprofen :: MedicineCorrection where
  "ibuprofen = \<lparr>original = ''Ibuprofin'', corrected = ''Ibuprofen'', confidence = 88,
     method_name = ''fuzzy_match'', explanation = ''Closest known medicine name'', is_valid = True\<rparr>"

definition info_for :: "string \<Rightarrow> MedicineInfo" where
  "info_for n = \<lparr>name = n, category = ''general medication'', description = [], dosage = [],
     side_effects = [], precautions = [], interactions = None, pregnancy_safety = None,
     storage = None, missed_dose = None, verified = False, verification_sources = []\<rparr>"

text \<open>
  A backend that reads \<open>rx1\<close> as a paracetamol prescription and any other file as an
  ibuprofen prescription, and answers every requested name with a default record.
\<close>

definition backend :: server where
  "backend = \<lparr>
     ocr = (\<lambda>f. if file_name f = ''rx1.jpg''
                then Resolves (OcrData True ''Paracetamol 500mg twice daily'' None)
                else Resolves (OcrData True ''Ibuprofin 200mg'' None)),
     extract_meds = (\<lambda>t. if t = ''Paracetamol 500mg twice daily''
                then Resolves (MedsData True [paracetamol] (Some ''All medicine names were accurate.''))
                else Resolves (MedsData True [ibuprofen] (Some ''Corrected Ibuprofin to Ibuprofen.''))),
     med_info = (\<lambda>ns. Resolves (InfoData True (map info_for ns)))\<rparr>"

text \<open>The same backend, except that the information endpoint always answers for aspirin.\<close>

definition aspirin_backend :: server where
  "aspirin_backend = backend\<lparr>med_info := (\<lambda>ns. Resolves (InfoData True [info_for ''Aspirin'']))\<rparr>"

text \<open>A backend that cannot be reached, and one whose extraction endpoint reports failure.\<close>

definition offline_backend :: server where
  "offline_backend = \<lparr>ocr = (\<lambda>f. Rejects ''Network Error''),
     extract_meds = (\<lambda>t. Rejects ''Network Error''),
     med_info = (\<lambda>ns. Rejects ''Network Error'')\<rparr>"

definition no_extraction_backend :: server where
  "no_extraction_backend = backend\<lparr>extract_meds := (\<lambda>t. Resolves (MedsData False [] None))\<rparr>"

text \<open>
  Two uploads in a row: \<open>rx1\<close> is dropped, then \<open>rx2\<close> while the first OCR request is
  still pending; the second invocation runs to its end; only then does the first OCR
  response arrive.
\<close>

definition superseded :: world where
  "superseded =
     (let (sA, kA) = handleFileUpload rx1 (initial 0);
          (sB, kB) = handleFileUpload rx2 sA;
          (s1, k1) = serve backend kB sB;
          (s2, k2) = serve backend k1 s1;
          (s3, k3) = serve backend k2 s2;
          (s4, k4) = serve backend kA s3
      in s4)"

text \<open>
  Backends whose extraction endpoint succeeds with no medicine. The first answers the
  information request for no name with no record, the second cannot be reached for it,
  the third answers it with a record for aspirin.
\<close>

definition nothing_found_backend :: server where
  "nothing_found_backend = backend\<lparr>extract_meds :=
     (\<lambda>t. Resolves (MedsData True [] (Some ''All medicine names were accurate.'')))\<rparr>"

definition nothing_found_offline :: server where
  "nothing_found_offline = nothing_found_backend\<lparr>med_info := (\<lambda>ns. Rejects ''Network Error'')\<rparr>"

definition nothing_found_aspirin :: server where
  "nothing_found_aspirin =
     nothing_found_backend\<lparr>med_info := (\<lambda>ns. Resolves (InfoData True [info_for ''Aspirin'']))\<rparr>"

text \<open>
  Lines 366-383: the Clear Results button is rendered when a medicine is stored or the
  extracted text is not empty.
\<close>

definition clear_results_shown :: "world \<Rightarrow> bool" where
  "clear_results_shown s = (0 < length (medicines s) \<or> 0 < length (extractedText s))"

text \<open>\<open>rx1\<close> is dropped on the fresh application and its OCR response has arrived.\<close>

definition text_extracted :: world where
  "text_extracted = performs [Drop [rx1], OcrSettles rx1 (ocr backend rx1)] (initial 0)"

text \<open>A file is dropped and then cleared in the upload collector.\<close>

definition dropped_and_cleared :: world where
  "dropped_and_cleared = clearFile (fst (onDrop [rx1] (initial 0)))"

section \<open>What each resumption does\<close>

lemmas op_defs = addMessage_def axios_post_def toast_show_def catch_block_def finally_block_def
  try_catch_finally_def

lemmas example_defs = rx1_def rx2_def paracetamol_def ibuprofen_def info_for_def backend_def
  aspirin_backend_def offline_backend_def no_extraction_backend_def initial_def
  nothing_found_backend_def nothing_found_offline_def nothing_found_aspirin_def

lemma resume_ocr_ok:
  "ocr_success d \<Longrightarrow> resume_ocr file (Resolves d) s =
     (axios_post (ExtractMedsCall (ocr_text d))
        (addMessage AI (''I've extracted the text from your prescription. Found ''
             @ string_of_nat (length (split CHR '' '' (ocr_text d))) @ '' words.'')
           (s\<lparr>extractedText := ocr_text d\<rparr>)),
      AwaitMeds file (ocr_text d))"
  by (simp add: resume_ocr_def ocr_stretch_def try_catch_finally_def Let_def)

lemma resume_meds_ok:
  "meds_success d \<Longrightarrow> resume_meds file t (Resolves d) s =
     (axios_post (MedInfoCall (map corrected (meds_medicines d)))
        (addMessage AI (medicineMessage (map corrected (meds_medicines d)) (correction_summary d))
           (s\<lparr>medicineCorrections := meds_medicines d\<rparr>)),
      AwaitInfo file t (meds_medicines d))"
  by (simp add: resume_meds_def meds_stretch_def try_catch_finally_def Let_def)

lemma resume_info_ok:
  "info_success d \<Longrightarrow> resume_info file t md (Resolves d) s =
     (finally_block
        (toast_show (ToastSuccess ''Prescription processed successfully!'')
          ((addMessage AI (''I've analyzed your prescription and prepared detailed ''
                @ ''information for each medicine. You can view the details below.'')
              (s\<lparr>medicines := medicines_info d\<rparr>))
            \<lparr>modalResults := Some (ModalResults t (medicines_info d) md (file_name file)),
              showResultsModal := True\<rparr>)),
      Returned)"
  by (simp add: resume_info_def info_stretch_def try_catch_finally_def Let_def)

lemma resume_ocr_fail:
  "ocr_fails r \<Longrightarrow> resume_ocr file r s = (finally_block (catch_block (ocr_error r) s), Returned)"
  by (cases r) (simp_all add: ocr_fails_def ocr_error_def resume_ocr_def ocr_stretch_def
      try_catch_finally_def)

lemma resume_meds_fail:
  "meds_fails r \<Longrightarrow>
     resume_meds file t r s = (finally_block (catch_block (meds_error r) s), Returned)"
  by (cases r) (simp_all add: meds_fails_def meds_error_def resume_meds_def meds_stretch_def
      try_catch_finally_def)

lemma resume_info_fail:
  "info_fails r \<Longrightarrow>
     resume_info file t md r s = (finally_block (catch_block (info_error r) s), Returned)"
  by (cases r) (simp_all add: info_fails_def info_error_def resume_info_def info_stretch_def
      try_catch_finally_def)

lemma failure_reported_catch:
  "failure_reported e s (finally_block (catch_block e s), Returned)"
  by (simp add: failure_reported_def op_defs)

lemma calls_catch: "calls (finally_block (catch_block e s)) = calls s"
  by (simp add: op_defs)

lemma resume_info_returns: "snd (resume_info file t md r s) = Returned"
  by (cases "info_fails r")
     (auto simp: resume_info_fail resume_info_ok info_fails_def split: reply.splits)

lemma resume_info_calls: "calls (fst (resume_info file t md r s)) = calls s"
  by (cases "info_fails r")
     (auto simp: resume_info_fail resume_info_ok info_fails_def op_defs split: reply.splits)

section \<open>Failures\<close>

text \<open>
  Claim C2. A failing step ends the invocation and issues no request. At any state \<open>s\<close>
  in which the response arrives, a failing OCR or extraction response makes the
  invocation return with the request log as it was, and the information step returns in
  every case without a request; so in a run with nothing interleaved, an OCR failure
  leaves the OCR request as the run's only request, and an extraction failure leaves
  the OCR and the extraction request as its only two.
\<close>

theorem failure_stops_pipeline:
  "(ocr_fails ra \<longrightarrow>
      snd (resume_ocr f ra s) = Returned \<and> calls (fst (resume_ocr f ra s)) = calls s)
   \<and> (meds_fails rb \<longrightarrow>
      snd (resume_meds f t rb s) = Returned \<and> calls (fst (resume_meds f t rb s)) = calls s)
   \<and> snd (resume_info f t md rc s) = Returned
   \<and> calls (fst (resume_info f t md rc s)) = calls s
   \<and> (ocr_fails (ocr srv f) \<longrightarrow>
      calls (fst (processPrescription srv f s)) = calls s @ [OcrCall f])
   \<and> (ocr srv' f = Resolves d \<and> ocr_success d \<and> meds_fails (extract_meds srv' (ocr_text d)) \<longrightarrow>
      calls (fst (processPrescription srv' f s))
        = calls s @ [OcrCall f, ExtractMedsCall (ocr_text d)])"
  by (auto simp: resume_ocr_fail resume_meds_fail resume_info_returns resume_info_calls calls_catch
        processPrescription_def serve_def processPrescription_begin_def resume_ocr_ok Let_def
        addMessage_def axios_post_def)

theorem failure_stops_pipeline_witness:
  "ocr_fails (Rejects ''Network Error'')
   \<and> calls (fst (resume_ocr rx1 (Rejects ''Network Error'') (initial 0))) = []
   \<and> meds_fails (Resolves (MedsData False [] None))
   \<and> calls (fst (resume_meds rx1 ''Paracetamol 500mg twice daily''
        (Resolves (MedsData False [] None)) (initial 0))) = []
   \<and> ocr_fails (ocr offline_backend rx1)
   \<and> calls (fst (processPrescription offline_backend rx1 (initial 0))) = [OcrCall rx1]
   \<and> ocr no_extraction_backend rx1 = Resolves (OcrData True ''Paracetamol 500mg twice daily'' None)
   \<and> meds_fails (extract_meds no_extraction_backend ''Paracetamol 500mg twice daily'')
   \<and> calls (fst (processPrescription no_extraction_backend rx1 (initial 0)))
       = [OcrCall rx1, ExtractMedsCall ''Paracetamol 500mg twice daily'']"
  using failure_stops_pipeline [where ra = "Rejects ''Network Error''" and f = rx1
      and s = "initial 0" and rb = "Resolves (MedsData False [] None)"
      and t = "''Paracetamol 500mg twice daily''" and srv = offline_backend
      and srv' = no_extraction_backend
      and d = "OcrData True ''Paracetamol 500mg twice daily'' None"]
  by (simp add: ocr_fails_def meds_fails_def offline_backend_def no_extraction_backend_def
      backend_def rx1_def initial_def)

text \<open>
  Claim C5. Whatever the state in which a failing response arrives, and whichever of
  the three steps fails (the request throws, or the response says
  \<^verbatim>\<open>success: false\<close>), the invocation returns normally, the transcript grows by exactly
  one AI message that quotes the error, and \<open>isTyping\<close> and \<open>isProcessing\<close> are reset.
\<close>

theorem failure_is_reported_once:
  "(ocr_fails ra \<longrightarrow> failure_reported (ocr_error ra) s (resume_ocr f ra s))
   \<and> (meds_fails rb \<longrightarrow> failure_reported (meds_error rb) s (resume_meds f t rb s))
   \<and> (info_fails rc \<longrightarrow> failure_reported (info_error rc) s (resume_info f t md rc s))"
  by (simp add: resume_ocr_fail resume_meds_fail resume_info_fail failure_reported_catch)

theorem failure_is_reported_once_witness:
  "ocr_fails (Resolves (OcrData False [] (Some ''Unreadable image'')))
   \<and> failure_reported ''Unreadable image'' (initial 0)
       (resume_ocr rx1 (Resolves (OcrData False [] (Some ''Unreadable image''))) (initial 0))
   \<and> meds_fails (Rejects ''Network Error'')
   \<and> failure_reported ''Network Error'' (initial 0)
       (resume_meds rx1 ''Paracetamol 500mg twice daily'' (Rejects ''Network Error'') (initial 0))
   \<and> info_fails (Resolves (InfoData False []))
   \<and> failure_reported ''Could not retrieve medicine information'' (initial 0)
       (resume_info rx1 ''Paracetamol 500mg twice daily'' [paracetamol]
          (Resolves (InfoData False [])) (initial 0))"
  using failure_is_reported_once [where ra = "Resolves (OcrData False [] (Some ''Unreadable image''))"
      and rb = "Rejects ''Network Error''" and rc = "Resolves (InfoData False [])"
      and s = "initial 0" and f = rx1 and t = "''Paracetamol 500mg twice daily''"
      and md = "[paracetamol]"]
  by (simp add: ocr_fails_def meds_fails_def info_fails_def ocr_error_def meds_error_def
      info_error_def Error_message_def)

section \<open>The medicines-found message\<close>

text \<open>
  Claim C3. After a successful extraction response the transcript grows by one AI
  message: the count and the comma-separated corrected names, followed by a blank line
  and the correction summary exactly when the summary is present, non-empty and not the
  sentinel "All medicine names were accurate."; otherwise by nothing.
\<close>

theorem summary_shown_unless_sentinel:
  assumes "meds_success d"
  shows "messages (fst (resume_meds file t (Resolves d) s)) = messages s @
    [\<lparr>sender = AI,
      content = ''I found '' @ string_of_nat (length (meds_medicines d))
        @ '' medicine(s) in your prescription: '' @ join '', '' (map corrected (meds_medicines d))
        @ (if correction_summary d \<in> {None, Some [], Some ''All medicine names were accurate.''}
           then [] else [CHR 0x0A, CHR 0x0A] @ the (correction_summary d)),
      timestamp = now s\<rparr>]"
  using assms
  by (auto simp: resume_meds_ok op_defs medicineMessage_def sentinel_def Let_def split: option.splits)

theorem summary_shown_unless_sentinel_witness:
  "meds_success (MedsData True [ibuprofen] (Some ''Corrected Ibuprofin to Ibuprofen.''))
   \<and> messages (fst (resume_meds rx2 ''Ibuprofin 200mg''
        (Resolves (MedsData True [ibuprofen] (Some ''Corrected Ibuprofin to Ibuprofen.'')))
        (initial 7))) =
     [\<lparr>sender = AI,
       content = ''I found 1 medicine(s) in your prescription: Ibuprofen''
         @ [CHR 0x0A, CHR 0x0A] @ ''Corrected Ibuprofin to Ibuprofen.'',
       timestamp = 7\<rparr>]"
  using summary_shown_unless_sentinel
    [of "MedsData True [ibuprofen] (Some ''Corrected Ibuprofin to Ibuprofen.'')"
      rx2 "''Ibuprofin 200mg''" "initial 7"]
  by (simp add: initial_def ibuprofen_def string_of_nat.simps digit_def)

section \<open>The chat handler\<close>

text \<open>
  Claim C10. \<^verbatim>\<open>handleChatMessage\<close> appends the user's message before its request,
  and when the request settles it appends exactly one AI message on each of its three
  paths (the request throws, the response says \<^verbatim>\<open>success: false\<close>, the response
  succeeds) and resets \<open>isTyping\<close> and \<open>isChatProcessing\<close>; two messages in all.
\<close>

theorem chat_appends_question_and_one_answer:
  "messages (handleChatMessage_begin m s) =
     messages s @ [\<lparr>sender = User, content = m, timestamp = now s\<rparr>]
   \<and> messages (resume_chat (Rejects e) s') = messages s' @
       [\<lparr>sender = AI,
         content = ''Sorry, I encountered an error while processing your message. Please try again.'',
         timestamp = now s'\<rparr>]
   \<and> messages (resume_chat (Resolves (ChatData False x)) s') = messages s' @
       [\<lparr>sender = AI, content = ''Sorry, I encountered an error. Please try again.'',
         timestamp = now s'\<rparr>]
   \<and> messages (resume_chat (Resolves (ChatData True x)) s') = messages s' @
       [\<lparr>sender = AI, content = x, timestamp = now s'\<rparr>]
   \<and> \<not> isTyping (resume_chat r s') \<and> \<not> isChatProcessing (resume_chat r s')
   \<and> length (messages (resume_chat r (handleChatMessage_begin m s))) = length (messages s) + 2"
  by (simp add: handleChatMessage_begin_def resume_chat_def addMessage_def axios_post_def
      split: reply.split)

section \<open>An extraction that finds nothing\<close>

text \<open>
  Claim C6, as the code has it. Take a run, with nothing interleaved, whose OCR response
  succeeds and whose extraction response succeeds with an empty medicines list. The
  extraction is not treated as a failure: after the upload and the OCR message the run
  appends the medicines-found message with the count 0 and no name (there is no other
  message for this case), stores the empty correction list and requests information for
  the empty name list. How the run ends is decided by the reply to that request alone.
  When it succeeds, the completion message is appended, its records are stored as they
  came (no medicine exactly when it carries none), the modal is opened on them and the
  success toast is shown. When it throws or says \<^verbatim>\<open>success: false\<close>, the run ends with
  the apology and the error toast, and leaves the medicines and the modal as they were.
  Either way the invocation returns with both flags reset.
\<close>

theorem empty_extraction_run:
  assumes "ocr srv f = Resolves d1" and "ocr_success d1"
    and "extract_meds srv (ocr_text d1) = Resolves d2" and "meds_success d2"
    and "meds_medicines d2 = []"
  shows "snd (processPrescription srv f s) = Returned
    \<and> calls (fst (processPrescription srv f s))
        = calls s @ [OcrCall f, ExtractMedsCall (ocr_text d1), MedInfoCall []]
    \<and> medicineCorrections (fst (processPrescription srv f s)) = []
    \<and> \<not> isTyping (fst (processPrescription srv f s))
    \<and> \<not> isProcessing (fst (processPrescription srv f s))
    \<and> messages (fst (processPrescription srv f s)) = messages s @
        [\<lparr>sender = User, content = ''Uploaded prescription: '' @ file_name f, timestamp = now s\<rparr>,
         \<lparr>sender = AI,
           content = ''I've extracted the text from your prescription. Found ''
             @ string_of_nat (length (split CHR '' '' (ocr_text d1))) @ '' words.'',
           timestamp = now s\<rparr>,
         \<lparr>sender = AI,
           content = ''I found 0 medicine(s) in your prescription: ''
             @ (if correction_summary d2 \<in> {None, Some [], Some ''All medicine names were accurate.''}
                then [] else [CHR 0x0A, CHR 0x0A] @ the (correction_summary d2)),
           timestamp = now s\<rparr>,
         \<lparr>sender = AI,
           content =
             (case med_info srv [] of
                Resolves d3 \<Rightarrow>
                  if info_success d3
                  then ''I've analyzed your prescription and prepared detailed information for each medicine. You can view the details below.''
                  else ''Sorry, I encountered an error while processing your prescription: Could not retrieve medicine information. Please try again with a clearer image.''
              | Rejects e \<Rightarrow>
                  ''Sorry, I encountered an error while processing your prescription: ''
                    @ e @ ''. Please try again with a clearer image.''),
           timestamp = now s\<rparr>]
    \<and> (case med_info srv [] of
          Resolves d3 \<Rightarrow>
            if info_success d3 then
              medicines (fst (processPrescription srv f s)) = medicines_info d3
              \<and> modalResults (fst (processPrescription srv f s))
                  = Some (ModalResults (ocr_text d1) (medicines_info d3) [] (file_name f))
              \<and> showResultsModal (fst (processPrescription srv f s))
              \<and> toasts (fst (processPrescription srv f s))
                  = toasts s @ [ToastSuccess ''Prescription processed successfully!'']
            else
              medicines (fst (processPrescription srv f s)) = medicines s
              \<and> modalResults (fst (processPrescription srv f s)) = modalResults s
              \<and> showResultsModal (fst (processPrescription srv f s)) = showResultsModal s
              \<and> toasts (fst (processPrescription srv f s))
                  = toasts s @ [ToastError ''Failed to process prescription. Please try again.'']
        | Rejects e \<Rightarrow>
            medicines (fst (processPrescription srv f s)) = medicines s
            \<and> modalResults (fst (processPrescription srv f s)) = modalResults s
            \<and> showResultsModal (fst (processPrescription srv f s)) = showResultsModal s
            \<and> toasts (fst (processPrescription srv f s))
                = toasts s @ [ToastError ''Failed to process prescription. Please try again.''])"
proof -
  let ?s3 = "fst (resume_meds f (ocr_text d1) (Resolves d2)
               (fst (resume_ocr f (Resolves d1) (fst (processPrescription_begin f s)))))"
  have run: "processPrescription srv f s = resume_info f (ocr_text d1) [] (med_info srv []) ?s3"
    using assms
    by (simp add: processPrescription_def processPrescription_begin_def serve_def
        resume_ocr_ok resume_meds_ok Let_def)
  have s3: "?s3 = s\<lparr>isProcessing := True, isTyping := True,
      messages := messages s @
        [\<lparr>sender = User, content = ''Uploaded prescription: '' @ file_name f, timestamp = now s\<rparr>,
         \<lparr>sender = AI,
           content = ''I've extracted the text from your prescription. Found ''
             @ string_of_nat (length (split CHR '' '' (ocr_text d1))) @ '' words.'',
           timestamp = now s\<rparr>,
         \<lparr>sender = AI,
           content = ''I found 0 medicine(s) in your prescription: ''
             @ (if correction_summary d2 \<in> {None, Some [], Some ''All medicine names were accurate.''}
                then [] else [CHR 0x0A, CHR 0x0A] @ the (correction_summary d2)),
           timestamp = now s\<rparr>],
      extractedText := ocr_text d1, medicineCorrections := [],
      calls := calls s @ [OcrCall f, ExtractMedsCall (ocr_text d1), MedInfoCall []]\<rparr>"
    using assms
    by (auto simp: processPrescription_begin_def resume_ocr_ok resume_meds_ok op_defs Let_def
        medicineMessage_def sentinel_def string_of_nat.simps [of 0] digit_def
        split: option.splits)
  show ?thesis
  proof (cases "info_fails (med_info srv [])")
    case True
    then show ?thesis
      unfolding run s3
      by (auto simp: resume_info_fail info_fails_def info_error_def op_defs split: reply.splits)
  next
    case False
    then obtain d3 where "med_info srv [] = Resolves d3" and "info_success d3"
      by (auto simp: info_fails_def split: reply.splits)
    then show ?thesis
      unfolding run s3
      by (simp add: resume_info_ok op_defs)
  qed
qed

theorem empty_extraction_run_witness:
  "ocr nothing_found_backend rx1 = Resolves (OcrData True ''Paracetamol 500mg twice daily'' None)
   \<and> extract_meds nothing_found_backend ''Paracetamol 500mg twice daily''
       = Resolves (MedsData True [] (Some ''All medicine names were accurate.''))
   \<and> medicines (fst (processPrescription nothing_found_backend rx1 (initial 0))) = []
   \<and> modalResults (fst (processPrescription nothing_found_backend rx1 (initial 0)))
       = Some (ModalResults ''Paracetamol 500mg twice daily'' [] [] ''rx1.jpg'')
   \<and> showResultsModal (fst (processPrescription nothing_found_backend rx1 (initial 0)))
   \<and> toasts (fst (processPrescription nothing_found_backend rx1 (initial 0)))
       = [ToastSuccess ''Prescription processed successfully!'']"
  using empty_extraction_run [of nothing_found_backend rx1
      "OcrData True ''Paracetamol 500mg twice daily'' None"
      "MedsData True [] (Some ''All medicine names were accurate.'')" "initial 0"]
  by (simp add: nothing_found_backend_def backend_def rx1_def initial_def)

text \<open>
  Claim C6 as stated fails. With the same successful, empty extraction response, the
  run for \<open>rx1\<close> ends in the error path when the information request cannot be sent
  (error toast, apology as the last message, no modal), and with one stored medicine
  when the information endpoint answers with a record.
\<close>

theorem empty_extraction_can_end_otherwise:
  "extract_meds nothing_found_offline ''Paracetamol 500mg twice daily''
     = Resolves (MedsData True [] (Some ''All medicine names were accurate.''))
   \<and> toasts (fst (processPrescription nothing_found_offline rx1 (initial 0)))
       = [ToastError ''Failed to process prescription. Please try again.'']
   \<and> modalResults (fst (processPrescription nothing_found_offline rx1 (initial 0))) = None
   \<and> content (last (messages (fst (processPrescription nothing_found_offline rx1 (initial 0)))))
       = ''Sorry, I encountered an error while processing your prescription: Network Error. Please try again with a clearer image.''
   \<and> extract_meds nothing_found_aspirin ''Paracetamol 500mg twice daily''
     = Resolves (MedsData True [] (Some ''All medicine names were accurate.''))
   \<and> map name (medicines (fst (processPrescription nothing_found_aspirin rx1 (initial 0))))
       = [''Aspirin'']"
  by (simp add: processPrescription_def processPrescription_begin_def serve_def
      resume_ocr_ok resume_meds_ok resume_info_ok resume_info_fail info_fails_def info_error_def
      op_defs example_defs Let_def)

section \<open>Overlapping runs\<close>

text \<open>
  Claim C1, as the code has it. No invocation carries an identity and no response is
  compared with a current run: whatever happened between the request and its response
  (the actions \<open>as\<close>, a newer run included), a successful OCR response sets the
  extracted text, a successful extraction response sets the corrections, and a
  successful information response sets the medicines and the modal results and opens
  the modal, each from the invocation that awaited it.
\<close>

theorem late_response_is_applied:
  "extractedText (perform (OcrSettles fA (Resolves (OcrData True tA mA))) (performs as s)) = tA
   \<and> medicineCorrections
        (perform (MedsSettles fA tA (Resolves (MedsData True mdA csA))) (performs as s)) = mdA
   \<and> medicines
        (perform (InfoSettles fA tA mdA (Resolves (InfoData True miA))) (performs as s)) = miA
   \<and> modalResults
        (perform (InfoSettles fA tA mdA (Resolves (InfoData True miA))) (performs as s))
       = Some (ModalResults tA miA mdA (file_name fA))
   \<and> showResultsModal
        (perform (InfoSettles fA tA mdA (Resolves (InfoData True miA))) (performs as s))"
  by (simp add: resume_ocr_ok resume_meds_ok resume_info_ok op_defs)

text \<open>
  Claim C1 as stated fails. In \<open>superseded\<close> the run for \<open>rx2\<close> was started while the
  run for \<open>rx1\<close> was pending and has completed, so the modal shows the second run; the
  first run's OCR response, arriving last, has replaced the extracted text.
\<close>

theorem superseded_run_overwrites_text:
  "modalResults superseded =
     Some (ModalResults ''Ibuprofin 200mg'' [info_for ''Ibuprofen''] [ibuprofen] ''rx2.png'')
   \<and> extractedText superseded = ''Paracetamol 500mg twice daily''
   \<and> extractedText superseded \<noteq> ''Ibuprofin 200mg''"
  by (simp add: superseded_def handleFileUpload_def processPrescription_begin_def serve_def
      resume_ocr_ok resume_meds_ok resume_info_ok op_defs example_defs Let_def)

section \<open>Stored medicine information\<close>

text \<open>
  Claim C4, as the code has it. In a run whose three responses succeed, the
  information request carries the corrected names in the order of the extraction
  response, and the stored medicine list is the list of the information response as it
  came, with no name compared; so the stored names are the set of corrected names
  exactly when the names of the response are.
\<close>

theorem stored_info_is_the_response:
  assumes "ocr srv f = Resolves d1" "ocr_success d1"
    and "extract_meds srv (ocr_text d1) = Resolves d2" "meds_success d2"
    and "med_info srv (map corrected (meds_medicines d2)) = Resolves d3" "info_success d3"
  shows "medicineCorrections (fst (processPrescription srv f s)) = meds_medicines d2
    \<and> medicines (fst (processPrescription srv f s)) = medicines_info d3
    \<and> calls (fst (processPrescription srv f s)) = calls s @
        [OcrCall f, ExtractMedsCall (ocr_text d1), MedInfoCall (map corrected (meds_medicines d2))]
    \<and> (set (map name (medicines (fst (processPrescription srv f s))))
         = set (map corrected (medicineCorrections (fst (processPrescription srv f s))))
       \<longleftrightarrow> set (map name (medicines_info d3)) = set (map corrected (meds_medicines d2)))"
  using assms
  by (simp add: processPrescription_def processPrescription_begin_def serve_def
      resume_ocr_ok resume_meds_ok resume_info_ok op_defs Let_def)

theorem stored_info_is_the_response_witness:
  "ocr backend rx1 = Resolves (OcrData True ''Paracetamol 500mg twice daily'' None)
   \<and> extract_meds backend ''Paracetamol 500mg twice daily''
       = Resolves (MedsData True [paracetamol] (Some ''All medicine names were accurate.''))
   \<and> med_info backend [''Paracetamol''] = Resolves (InfoData True [info_for ''Paracetamol''])
   \<and> medicines (fst (processPrescription backend rx1 (initial 0))) = [info_for ''Paracetamol'']
   \<and> medicineCorrections (fst (processPrescription backend rx1 (initial 0))) = [paracetamol]"
  using stored_info_is_the_response [of backend rx1
      "OcrData True ''Paracetamol 500mg twice daily'' None"
      "MedsData True [paracetamol] (Some ''All medicine names were accurate.'')"
      "InfoData True [info_for ''Paracetamol'']" "initial 0"]
  by (simp add: backend_def rx1_def paracetamol_def)

text \<open>
  Claim C4 as stated fails. When the information endpoint answers the request for
  paracetamol with a record for aspirin, that record is stored next to the paracetamol
  correction.
\<close>

theorem info_names_can_differ:
  "set (map name (medicines (fst (processPrescription aspirin_backend rx1 (initial 0)))))
   \<noteq> set (map corrected
         (medicineCorrections (fst (processPrescription aspirin_backend rx1 (initial 0)))))"
  by (simp add: processPrescription_def processPrescription_begin_def serve_def
      resume_ocr_ok resume_meds_ok resume_info_ok op_defs example_defs Let_def)

section \<open>The upload collector\<close>

text \<open>
  Claim C7, as the code has it. An empty drop does nothing. Otherwise only the first
  accepted file counts: the collector stores its name, starts reading it and hands it
  to the orchestrator, which makes it the current file and starts a run at once, so the
  OCR request is issued by the selection itself. The preview is unchanged by the
  selection; it is set later, when the read completes, and that issues no request. The
  zone then shows the placeholder glyph when the stored name ends in ".pdf", whatever
  its case, and the data URL as an image otherwise.
\<close>

theorem selection_starts_the_run:
  "onDrop [] s = (s, None)
   \<and> onDrop (file # rest) s = onDrop [file] s
   \<and> snd (onDrop (file # rest) s) = Some (AwaitOcr file)
   \<and> fileName (fst (onDrop (file # rest) s)) = file_name file
   \<and> preview (fst (onDrop (file # rest) s)) = preview s
   \<and> reads (fst (onDrop (file # rest) s)) = reads s @ [file]
   \<and> currentFile (fst (onDrop (file # rest) s)) = Some file
   \<and> calls (fst (onDrop (file # rest) s)) = calls s @ [OcrCall file]
   \<and> preview (reader_onload file s') = Some (data_url file)
   \<and> calls (reader_onload file s') = calls s'
   \<and> upload_zone (reader_onload file (fst (onDrop (file # rest) s)))
       = (if endsWith (toLowerCase (file_name file)) ''.pdf'' then PdfGlyph
          else PreviewImage (data_url file))"
  by (simp add: onDrop_def handleFileUpload_def processPrescription_begin_def op_defs Let_def
      reader_onload_def upload_zone_def)

text \<open>
  Claim C7 as stated fails. Dropping \<open>rx1\<close> on the freshly rendered application
  changes the request log.
\<close>

theorem selection_issues_ocr_request:
  "calls (fst (onDrop [rx1] (initial 0))) \<noteq> calls (initial 0)"
  by (simp add: onDrop_def handleFileUpload_def processPrescription_begin_def op_defs Let_def
      initial_def)

text \<open>
  Claim C8, as the code has it. Clearing resets the collector's own two cells, the
  preview and the stored file name, so that the zone shows the upload prompt; it
  writes nothing else.
\<close>

theorem clearFile_resets_collector_only:
  "preview (clearFile s) = None
   \<and> fileName (clearFile s) = []
   \<and> upload_zone (clearFile s) = UploadPrompt
   \<and> (clearFile s)\<lparr>preview := preview s, fileName := fileName s\<rparr> = s"
  by (simp add: clearFile_def upload_zone_def)

text \<open>
  Claim C8 as stated fails. After \<open>rx1\<close> is dropped and then cleared, it is still the
  orchestrator's current file, and \<^verbatim>\<open>handleAnalyze\<close> issues an OCR request for it.
\<close>

theorem cleared_file_still_analyzable:
  "currentFile dropped_and_cleared = Some rx1
   \<and> calls (fst (handleAnalyze dropped_and_cleared)) = calls dropped_and_cleared @ [OcrCall rx1]"
  by (simp add: dropped_and_cleared_def clearFile_def handleAnalyze_def onDrop_def
      handleFileUpload_def processPrescription_begin_def op_defs Let_def initial_def)

section \<open>The transcript\<close>

lemma perform_prefix:
  "a \<noteq> ClearResults \<Longrightarrow> prefix (messages s) (messages (perform a s))"
proof (cases a)
  case (Drop fs)
  then show ?thesis
    by (cases fs) (simp_all add: onDrop_def handleFileUpload_def processPrescription_begin_def
        op_defs Let_def)
next
  case AnalysisClick
  then show ?thesis
    by (simp add: analysis_click_def handleAnalyze_def processPrescription_begin_def op_defs
        Let_def split: option.split)
next
  case (OcrSettles f r)
  then show ?thesis
    by (cases "ocr_fails r")
       (auto simp: resume_ocr_fail resume_ocr_ok ocr_fails_def op_defs split: reply.splits)
next
  case (MedsSettles f t r)
  then show ?thesis
    by (cases "meds_fails r")
       (auto simp: resume_meds_fail resume_meds_ok meds_fails_def op_defs split: reply.splits)
next
  case (InfoSettles f t md r)
  then show ?thesis
    by (cases "info_fails r")
       (auto simp: resume_info_fail resume_info_ok info_fails_def op_defs split: reply.splits)
next
  case (ChatSettles r)
  then show ?thesis
    by (simp add: resume_chat_def addMessage_def split: reply.split)
qed (simp_all add: clearFile_def closeModal_def toggleDarkMode_def handleChatMessage_begin_def
      reader_onload_def op_defs)

lemma performs_prefix:
  "ClearResults \<notin> set as \<Longrightarrow> prefix (messages s) (messages (performs as s))"
proof (induction as arbitrary: s)
  case Nil
  then show ?case by simp
next
  case (Cons a as)
  have "prefix (messages s) (messages (perform a s))"
    using Cons.prems by (intro perform_prefix) auto
  moreover have "prefix (messages (perform a s)) (messages (performs as (perform a s)))"
    using Cons.prems by (intro Cons.IH) simp
  ultimately show ?case by (auto intro: prefix_order.trans)
qed

text \<open>
  Claim C9, as the code has it. Over any sequence of actions without
  \<^verbatim>\<open>clearResults\<close> (uploads, failing and succeeding responses, chat questions and
  answers among them) the transcript only grows at its end: what it held before is a
  prefix of what it holds after. \<^verbatim>\<open>clearResults\<close> empties it.
\<close>

theorem transcript_grows_unless_cleared:
  "(ClearResults \<notin> set as \<longrightarrow> prefix (messages s) (messages (performs as s)))
   \<and> messages (perform ClearResults s) = []"
  by (simp add: performs_prefix clearResults_def)

theorem transcript_grows_unless_cleared_witness:
  "ClearResults \<notin> set [SendChat ''hello'', ChatSettles (Rejects ''Network Error''),
       Drop [rx2], OcrSettles rx2 (Rejects ''Network Error'')]
   \<and> length (messages text_extracted) = 2
   \<and> length (messages (performs [SendChat ''hello'', ChatSettles (Rejects ''Network Error''),
        Drop [rx2], OcrSettles rx2 (Rejects ''Network Error'')] text_extracted)) = 6
   \<and> prefix (messages text_extracted)
        (messages (performs [SendChat ''hello'', ChatSettles (Rejects ''Network Error''),
           Drop [rx2], OcrSettles rx2 (Rejects ''Network Error'')] text_extracted))"
  using transcript_grows_unless_cleared
    [of "[SendChat ''hello'', ChatSettles (Rejects ''Network Error''),
       Drop [rx2], OcrSettles rx2 (Rejects ''Network Error'')]" text_extracted]
  by (simp add: text_extracted_def onDrop_def handleFileUpload_def processPrescription_begin_def
      handleChatMessage_begin_def resume_chat_def resume_ocr_ok resume_ocr_fail ocr_fails_def
      op_defs example_defs Let_def)

text \<open>
  Claim C9 as stated fails. Once \<open>rx1\<close> has been dropped and its text extracted, the
  transcript holds two messages and the Clear Results button is rendered;
  \<^verbatim>\<open>clearResults\<close> then leaves the transcript empty.
\<close>

theorem clearResults_empties_transcript:
  "clear_results_shown text_extracted
   \<and> length (messages text_extracted) = 2
   \<and> messages (perform ClearResults text_extracted) = []
   \<and> \<not> prefix (messages text_extracted) (messages (perform ClearResults text_extracted))"
  by (simp add: text_extracted_def clear_results_shown_def clearResults_def onDrop_def
      handleFileUpload_def processPrescription_begin_def resume_ocr_ok op_defs example_defs Let_def)

end
